theory Spec2Isabelle
  imports Complex_Main
begin

section \<open>Python values and exceptions\<close>

text \<open>
  The gateway handles parsed JSON. A float is represented by the number it denotes, or by
  one of the three special values that Python's JSON parser and \<^verbatim>\<open>float()\<close> can
  produce; rounding is not modelled. A dict is an association list in insertion order,
  read with \<^const>\<open>map_of\<close>; a Python dict has no repeated key.
\<close>

datatype pyfloat = Finite real | PosInf | NegInf | NaN

datatype pyval =
    PNone
  | PBool bool
  | PInt int
  | PFloat pyfloat
  | PStr string
  | PList "pyval list"
  | PDict "(string \<times> pyval) list"

text \<open>
  Exceptions. \<open>Builtin\<close> is an exception raised by the interpreter; \<open>PlainException\<close> is
  \<^verbatim>\<open>raise Exception(msg)\<close>; \<open>RequestException\<close> is any instance of
  \<^verbatim>\<open>requests.exceptions.RequestException\<close> that reaches the handlers of
  \<^verbatim>\<open>predict\<close>, with its text.
\<close>

datatype exc_class =
  ValueError | TypeError | OverflowError | KeyError | IndexError | AttributeError

datatype pyexc =
    Builtin exc_class
  | PlainException string
  | RequestException string

text \<open>
  What the interpreter supplies and the repository does not define: the conversion of an
  integer to a float (\<open>None\<close>: OverflowError), the parser of \<^verbatim>\<open>float(str)\<close>
  (\<open>None\<close>: ValueError), and the text \<^verbatim>\<open>str(e)\<close> of an interpreter-raised exception.
\<close>

record runtime =
  float_of_int :: "int \<Rightarrow> pyfloat option"
  float_of_str :: "string \<Rightarrow> pyfloat option"
  exc_text :: "exc_class \<Rightarrow> string"

text \<open>\<^verbatim>\<open>float(v)\<close>. A bool is an int to \<^verbatim>\<open>float\<close>.\<close>

fun py_float :: "runtime \<Rightarrow> pyval \<Rightarrow> pyexc + pyfloat" where
  "py_float rt (PFloat x) = Inr x"
| "py_float rt (PInt i) =
     (case float_of_int rt i of None \<Rightarrow> Inl (Builtin OverflowError) | Some x \<Rightarrow> Inr x)"
| "py_float rt (PBool b) =
     (case float_of_int rt (if b then 1 else 0) of
        None \<Rightarrow> Inl (Builtin OverflowError) | Some x \<Rightarrow> Inr x)"
| "py_float rt (PStr s) =
     (case float_of_str rt s of None \<Rightarrow> Inl (Builtin ValueError) | Some x \<Rightarrow> Inr x)"
| "py_float rt PNone = Inl (Builtin TypeError)"
| "py_float rt (PList xs) = Inl (Builtin TypeError)"
| "py_float rt (PDict d) = Inl (Builtin TypeError)"

text \<open>\<^verbatim>\<open>p in s\<close> for two strings: \<open>p\<close> occurs in \<open>s\<close> as a contiguous piece.\<close>

fun is_substring :: "string \<Rightarrow> string \<Rightarrow> bool" where
  "is_substring p [] = (p = [])"
| "is_substring p (c # cs) = (take (length p) (c # cs) = p \<or> is_substring p cs)"

text \<open>\<^verbatim>\<open>f in data\<close> for a string \<open>f\<close>: a key of a dict, an element of a list, a piece
  of a string; a TypeError on anything else.\<close>

fun py_contains :: "pyval \<Rightarrow> string \<Rightarrow> pyexc + bool" where
  "py_contains (PDict d) f = Inr (map_of d f \<noteq> None)"
| "py_contains (PList xs) f = Inr (PStr f \<in> set xs)"
| "py_contains (PStr s) f = Inr (is_substring f s)"
| "py_contains PNone f = Inl (Builtin TypeError)"
| "py_contains (PBool b) f = Inl (Builtin TypeError)"
| "py_contains (PInt i) f = Inl (Builtin TypeError)"
| "py_contains (PFloat x) f = Inl (Builtin TypeError)"

text \<open>\<^verbatim>\<open>data[f]\<close> for a string \<open>f\<close>: the entry of a dict (KeyError when absent); a
  list or a string takes integer indices only, the other values take none.\<close>

fun py_getitem :: "pyval \<Rightarrow> string \<Rightarrow> pyexc + pyval" where
  "py_getitem (PDict d) f =
     (case map_of d f of None \<Rightarrow> Inl (Builtin KeyError) | Some v \<Rightarrow> Inr v)"
| "py_getitem (PList xs) f = Inl (Builtin TypeError)"
| "py_getitem (PStr s) f = Inl (Builtin TypeError)"
| "py_getitem PNone f = Inl (Builtin TypeError)"
| "py_getitem (PBool b) f = Inl (Builtin TypeError)"
| "py_getitem (PInt i) f = Inl (Builtin TypeError)"
| "py_getitem (PFloat x) f = Inl (Builtin TypeError)"

text \<open>\<^verbatim>\<open>sep.join(xs)\<close>.\<close>

fun join_str :: "string \<Rightarrow> string list \<Rightarrow> string" where
  "join_str sep [] = []"
| "join_str sep [x] = x"
| "join_str sep (x # y # ys) = x @ sep @ join_str sep (y # ys)"

section \<open>Configuration\<close>

text \<open>
  \<^verbatim>\<open>config.Config\<close> is imported by the application and is not among its sources: the
  attributes the gateway reads are parameters. A default may be any value; the timeout
  is taken to be a whole number of seconds.
\<close>

record config =
  MODEL_FEATURES :: "string list"
  DEFAULT_VALUES :: "(string \<times> pyval) list"
  MLFLOW_ENDPOINT_URL :: string
  DATABRICKS_TOKEN :: string
  REQUEST_TIMEOUT :: int

section \<open>The validator\<close>

text \<open>\<^verbatim>\<open>[f for f in required_features if f not in data]\<close>: the membership tests run
  in order and the first one that raises ends the comprehension.\<close>

fun missing_features :: "pyval \<Rightarrow> string list \<Rightarrow> pyexc + string list" where
  "missing_features data [] = Inr []"
| "missing_features data (f # fs) =
     (case py_contains data f of
        Inl e \<Rightarrow> Inl e
      | Inr present \<Rightarrow>
          (case missing_features data fs of
             Inl e \<Rightarrow> Inl e
           | Inr ms \<Rightarrow> Inr (if present then ms else f # ms)))"

definition invalid_value_message :: "string \<Rightarrow> string" where
  "invalid_value_message feature =
     ''Invalid value for feature '' @ [CHR 0x27] @ feature @ [CHR 0x27] @ '': must be a number''"

text \<open>The \<^verbatim>\<open>for\<close> loop of \<^verbatim>\<open>validate_input_data\<close>: \<^verbatim>\<open>float(data[feature])\<close> under
  \<^verbatim>\<open>except (ValueError, TypeError)\<close>; any other exception leaves the function.\<close>

fun check_features :: "runtime \<Rightarrow> pyval \<Rightarrow> string list \<Rightarrow> pyexc + (bool \<times> string)" where
  "check_features rt data [] = Inr (True, [])"
| "check_features rt data (feature # fs) =
     (case (case py_getitem data feature of Inl e \<Rightarrow> Inl e | Inr v \<Rightarrow> py_float rt v) of
        Inl (Builtin ValueError) \<Rightarrow> Inr (False, invalid_value_message feature)
      | Inl (Builtin TypeError) \<Rightarrow> Inr (False, invalid_value_message feature)
      | Inl e \<Rightarrow> Inl e
      | Inr x \<Rightarrow> check_features rt data fs)"

definition validate_input_data :: "runtime \<Rightarrow> config \<Rightarrow> pyval \<Rightarrow> pyexc + (bool \<times> string)" where
  "validate_input_data rt cfg data =
     (let required_features = MODEL_FEATURES cfg in
      case missing_features data required_features of
        Inl e \<Rightarrow> Inl e
      | Inr missing \<Rightarrow>
          if missing \<noteq> []
          then Inr (False, ''Missing required features: '' @ join_str '', '' missing)
          else check_features rt data required_features)"

section \<open>The record builder\<close>

text \<open>\<^verbatim>\<open>data.get(feature, default)\<close>: only a dict has the method.\<close>

fun py_get :: "pyval \<Rightarrow> string \<Rightarrow> pyval \<Rightarrow> pyexc + pyval" where
  "py_get (PDict d) f dflt = Inr (case map_of d f of None \<Rightarrow> dflt | Some v \<Rightarrow> v)"
| "py_get PNone f dflt = Inl (Builtin AttributeError)"
| "py_get (PBool b) f dflt = Inl (Builtin AttributeError)"
| "py_get (PInt i) f dflt = Inl (Builtin AttributeError)"
| "py_get (PFloat x) f dflt = Inl (Builtin AttributeError)"
| "py_get (PStr s) f dflt = Inl (Builtin AttributeError)"
| "py_get (PList xs) f dflt = Inl (Builtin AttributeError)"

text \<open>\<^verbatim>\<open>Config.DEFAULT_VALUES.get(feature, 0.0)\<close>.\<close>

definition default_value :: "config \<Rightarrow> string \<Rightarrow> pyval" where
  "default_value cfg feature =
     (case map_of (DEFAULT_VALUES cfg) feature of None \<Rightarrow> PFloat (Finite 0) | Some v \<Rightarrow> v)"

text \<open>\<^verbatim>\<open>d[k] = v\<close> on an insertion-ordered dict: a key already there keeps its place.\<close>

fun dict_set :: "(string \<times> 'v) list \<Rightarrow> string \<Rightarrow> 'v \<Rightarrow> (string \<times> 'v) list" where
  "dict_set [] k v = [(k, v)]"
| "dict_set (p # ps) k v = (if fst p = k then (k, v) # ps else p # dict_set ps k v)"

text \<open>The dict comprehension of \<^verbatim>\<open>build_dataframe_from_request\<close>, with the dict built
  so far; the first \<^verbatim>\<open>float\<close> that raises ends it.\<close>

fun feature_dict ::
  "runtime \<Rightarrow> config \<Rightarrow> pyval \<Rightarrow> string list \<Rightarrow> (string \<times> pyfloat) list
     \<Rightarrow> pyexc + (string \<times> pyfloat) list" where
  "feature_dict rt cfg data [] acc = Inr acc"
| "feature_dict rt cfg data (feature # fs) acc =
     (case py_get data feature (default_value cfg feature) of
        Inl e \<Rightarrow> Inl e
      | Inr v \<Rightarrow>
          (case py_float rt v of
             Inl e \<Rightarrow> Inl e
           | Inr x \<Rightarrow> feature_dict rt cfg data fs (dict_set acc feature x)))"

text \<open>A pandas DataFrame of floats, as far as \<^verbatim>\<open>to_dict(orient='split')\<close> shows it.\<close>

record dataframe =
  df_columns :: "string list"
  df_index :: "int list"
  df_data :: "pyfloat list list"

text \<open>\<^verbatim>\<open>pd.DataFrame([d])\<close>: one row, labelled 0, the keys of \<open>d\<close> as columns.\<close>

definition frame_of_record :: "(string \<times> pyfloat) list \<Rightarrow> dataframe" where
  "frame_of_record d = \<lparr>df_columns = map fst d, df_index = [0], df_data = [map snd d]\<rparr>"

definition build_dataframe_from_request :: "runtime \<Rightarrow> config \<Rightarrow> pyval \<Rightarrow> pyexc + dataframe" where
  "build_dataframe_from_request rt cfg data =
     (case feature_dict rt cfg data (MODEL_FEATURES cfg) [] of
        Inl e \<Rightarrow> Inl e
      | Inr d \<Rightarrow> Inr (frame_of_record d))"

section \<open>The payload encoder\<close>

text \<open>\<^verbatim>\<open>df.to_dict(orient='split')\<close>.\<close>

definition to_dict_split :: "dataframe \<Rightarrow> pyval" where
  "to_dict_split df =
     PDict [(''index'', PList (map PInt (df_index df))),
            (''columns'', PList (map PStr (df_columns df))),
            (''data'', PList (map (\<lambda>row. PList (map PFloat row)) (df_data df)))]"

datatype tf_input = DictInput "(string \<times> pyval) list" | FrameInput dataframe

text \<open>\<^verbatim>\<open>{name: [data[name]] for name in data.keys()}\<close>, with the dict built so far.\<close>

fun tf_inputs ::
  "(string \<times> pyval) list \<Rightarrow> string list \<Rightarrow> (string \<times> pyval) list
     \<Rightarrow> pyexc + (string \<times> pyval) list" where
  "tf_inputs d [] acc = Inr acc"
| "tf_inputs d (name # names) acc =
     (case map_of d name of
        None \<Rightarrow> Inl (Builtin KeyError)
      | Some v \<Rightarrow> tf_inputs d names (dict_set acc name (PList [v])))"

fun create_tf_serving_json :: "tf_input \<Rightarrow> pyexc + pyval" where
  "create_tf_serving_json (DictInput d) =
     (case tf_inputs d (map fst d) [] of
        Inl e \<Rightarrow> Inl e
      | Inr inputs \<Rightarrow> Inr (PDict [(''inputs'', PDict inputs)]))"
| "create_tf_serving_json (FrameInput df) = Inr (PDict [(''dataframe_split'', to_dict_split df)])"

section \<open>The endpoint invoker\<close>

text \<open>
  What \<^verbatim>\<open>requests.post\<close> can do: raise a Timeout, raise a ConnectionError that is not
  a Timeout, raise something else, or return a response. \<open>body_json\<close> is what
  \<^verbatim>\<open>response.json()\<close> gives: the parsed body, or the exception of a body that is not
  JSON.
\<close>

record http_response =
  status_code :: int
  body_text :: string
  body_json :: "pyexc + pyval"

datatype post_outcome =
    PostTimeout
  | PostConnectionError
  | PostRaises pyexc
  | PostResponse http_response

text \<open>The endpoint: url, headers, the body (the value \<^verbatim>\<open>json.dumps\<close> serialises) and
  the timeout, to the outcome of the call.\<close>

type_synonym endpoint = "string \<Rightarrow> (string \<times> string) list \<Rightarrow> pyval \<Rightarrow> int \<Rightarrow> post_outcome"

text \<open>The decimal digit of a number below ten.\<close>

definition digit_char :: "nat \<Rightarrow> char" where
  "digit_char n = ''0123456789'' ! n"

fun str_nat :: "nat \<Rightarrow> string" where
  "str_nat n = (if n < 10 then [digit_char n] else str_nat (n div 10) @ [digit_char (n mod 10)])"

declare str_nat.simps [simp del]

text \<open>\<^verbatim>\<open>str(i)\<close> of an integer, as an f-string renders it.\<close>

definition str_int :: "int \<Rightarrow> string" where
  "str_int i = (if i < 0 then CHR ''-'' # str_nat (nat (- i)) else str_nat (nat i))"

definition score_model :: "endpoint \<Rightarrow> config \<Rightarrow> dataframe \<Rightarrow> pyexc + pyval" where
  "score_model post cfg dataset =
     (let url = MLFLOW_ENDPOINT_URL cfg;
          token = DATABRICKS_TOKEN cfg;
          timeout = REQUEST_TIMEOUT cfg;
          headers = [(''Authorization'', ''Bearer '' @ token),
                     (''Content-Type'', ''application/json'')];
          data_dict = PDict [(''dataframe_split'', to_dict_split dataset)]
      in case post url headers data_dict timeout of
           PostTimeout \<Rightarrow>
             Inl (PlainException (''Request timed out after '' @ str_int timeout @
               '' seconds. The model endpoint may be slow or unavailable.''))
         | PostConnectionError \<Rightarrow>
             Inl (PlainException
               ''Failed to connect to the model endpoint. Check your internet connection and endpoint URL.'')
         | PostRaises e \<Rightarrow> Inl e
         | PostResponse response \<Rightarrow>
             if status_code response \<noteq> 200
             then Inl (PlainException (''Request failed with status '' @
                    str_int (status_code response) @ ''. Response: '' @ body_text response))
             else body_json response)"

section \<open>The result normalizer\<close>

text \<open>\<^verbatim>\<open>v[0]\<close>. The keys of a parsed JSON object are strings, so 0 is never one.\<close>

fun py_index0 :: "pyval \<Rightarrow> pyexc + pyval" where
  "py_index0 (PList []) = Inl (Builtin IndexError)"
| "py_index0 (PList (x # xs)) = Inr x"
| "py_index0 (PStr []) = Inl (Builtin IndexError)"
| "py_index0 (PStr (c # cs)) = Inr (PStr [c])"
| "py_index0 (PDict d) = Inl (Builtin KeyError)"
| "py_index0 PNone = Inl (Builtin TypeError)"
| "py_index0 (PBool b) = Inl (Builtin TypeError)"
| "py_index0 (PInt i) = Inl (Builtin TypeError)"
| "py_index0 (PFloat x) = Inl (Builtin TypeError)"

text \<open>\<^verbatim>\<open>isinstance(result, dict) and key in result\<close>, with the entry when it holds.\<close>

fun dict_entry :: "pyval \<Rightarrow> string \<Rightarrow> pyval option" where
  "dict_entry (PDict d) key = map_of d key"
| "dict_entry PNone key = None"
| "dict_entry (PBool b) key = None"
| "dict_entry (PInt i) key = None"
| "dict_entry (PFloat x) key = None"
| "dict_entry (PStr s) key = None"
| "dict_entry (PList xs) key = None"

text \<open>The extraction of \<^verbatim>\<open>predict\<close> (the \<^verbatim>\<open>if/elif/else\<close> on \<^verbatim>\<open>result\<close>).\<close>

definition normalize :: "pyval \<Rightarrow> pyexc + pyval" where
  "normalize result =
     (case dict_entry result ''predictions'' of
        Some v \<Rightarrow> py_index0 v
      | None \<Rightarrow>
          (case dict_entry result ''data'' of
             Some v \<Rightarrow> py_index0 v
           | None \<Rightarrow> Inr result))"

section \<open>The route \<^verbatim>\<open>/predict\<close>\<close>

text \<open>\<^verbatim>\<open>bool(v)\<close>.\<close>

fun py_truthy :: "pyval \<Rightarrow> bool" where
  "py_truthy PNone = False"
| "py_truthy (PBool b) = b"
| "py_truthy (PInt i) = (i \<noteq> 0)"
| "py_truthy (PFloat x) = (x \<noteq> Finite 0)"
| "py_truthy (PStr s) = (s \<noteq> [])"
| "py_truthy (PList xs) = (xs \<noteq> [])"
| "py_truthy (PDict d) = (d \<noteq> [])"

text \<open>\<^verbatim>\<open>str(e)\<close>.\<close>

fun exc_str :: "runtime \<Rightarrow> pyexc \<Rightarrow> string" where
  "exc_str rt (Builtin c) = exc_text rt c"
| "exc_str rt (PlainException msg) = msg"
| "exc_str rt (RequestException msg) = msg"

text \<open>\<^verbatim>\<open>jsonify({'success': False, 'error': msg})\<close>.\<close>

definition error_body :: "string \<Rightarrow> pyval" where
  "error_body msg = PDict [(''success'', PBool False), (''error'', PStr msg)]"

text \<open>A response of the route: the status and the JSON body.\<close>

type_synonym http_reply = "int \<times> pyval"

text \<open>The \<^verbatim>\<open>try\<close> block of \<^verbatim>\<open>predict\<close> after \<^verbatim>\<open>request.get_json()\<close>: \<open>Inl\<close> is an
  exception on its way to the handlers.\<close>

definition predict_try :: "runtime \<Rightarrow> endpoint \<Rightarrow> config \<Rightarrow> pyval \<Rightarrow> pyexc + http_reply" where
  "predict_try rt post cfg data =
     (if \<not> py_truthy data
      then Inr (400, error_body ''No data provided in request body'')
      else
        case validate_input_data rt cfg data of
          Inl e \<Rightarrow> Inl e
        | Inr (is_valid, error_message) \<Rightarrow>
            if \<not> is_valid then Inr (400, error_body error_message)
            else
              (case build_dataframe_from_request rt cfg data of
                 Inl e \<Rightarrow> Inl e
               | Inr df \<Rightarrow>
                   (case score_model post cfg df of
                      Inl e \<Rightarrow> Inl e
                    | Inr result \<Rightarrow>
                        (case normalize result of
                           Inl e \<Rightarrow> Inl e
                         | Inr prediction_value \<Rightarrow>
                             Inr (200, PDict [(''success'', PBool True),
                                              (''prediction'', prediction_value)])))))"

text \<open>The two handlers, in the order of the source.\<close>

fun predict_except :: "runtime \<Rightarrow> pyexc \<Rightarrow> http_reply" where
  "predict_except rt (RequestException msg) =
     (500, error_body (''Network error while calling model endpoint: '' @ msg))"
| "predict_except rt e = (400, error_body (''An error occurred: '' @ exc_str rt e))"

text \<open>\<^verbatim>\<open>predict\<close>, given what \<^verbatim>\<open>request.get_json()\<close> returned or raised.\<close>

definition predict :: "runtime \<Rightarrow> endpoint \<Rightarrow> config \<Rightarrow> pyexc + pyval \<Rightarrow> http_reply" where
  "predict rt post cfg got =
     (case (case got of Inl e \<Rightarrow> Inl e | Inr data \<Rightarrow> predict_try rt post cfg data) of
        Inl e \<Rightarrow> predict_except rt e
      | Inr reply \<Rightarrow> reply)"

section \<open>A runtime and a configuration for concrete inputs\<close>

definition digit_value :: "char \<Rightarrow> nat option" where
  "digit_value c =
     map_of [(CHR ''0'', 0), (CHR ''1'', 1), (CHR ''2'', 2), (CHR ''3'', 3), (CHR ''4'', 4),
             (CHR ''5'', 5), (CHR ''6'', 6), (CHR ''7'', 7), (CHR ''8'', 8), (CHR ''9'', 9)] c"

fun decimal_value :: "nat \<Rightarrow> string \<Rightarrow> nat option" where
  "decimal_value acc [] = Some acc"
| "decimal_value acc (c # cs) =
     (case digit_value c of None \<Rightarrow> None | Some d \<Rightarrow> decimal_value (10 * acc + d) cs)"

text \<open>
  The bound of the integers that convert: the largest float is \<open>2^1024 - 2^971\<close>, and an
  integer from \<open>2^1024 - 2^970\<close> on rounds past it.
\<close>

definition float_limit :: int where
  "float_limit = 2 ^ 1024 - 2 ^ 970"

text \<open>
  \<open>cpython\<close> evaluates the model on concrete inputs. An integer converts exactly when
  CPython converts it, to the number itself. Of the strings CPython's \<^verbatim>\<open>float\<close> reads,
  the parser reads the unsigned decimal integers; the inputs evaluated below hold no other
  string that reaches \<^verbatim>\<open>float\<close>. The text of an exception is CPython's where it does
  not depend on the operand (OverflowError, the KeyError of the key 0, the IndexError of a
  list) and a shortened wording elsewhere; only the first is evaluated below.
\<close>

definition cpython :: runtime where
  "cpython =
     \<lparr>float_of_int = (\<lambda>i. if \<bar>i\<bar> < float_limit then Some (Finite (of_int i)) else None),
      float_of_str = (\<lambda>s. if s = [] then None
         else (case decimal_value 0 s of
                 None \<Rightarrow> None
               | Some n \<Rightarrow> Some (if int n < float_limit then Finite (of_nat n) else PosInf))),
      exc_text = (\<lambda>c. case c of
           ValueError \<Rightarrow> ''could not convert string to float''
         | TypeError \<Rightarrow> ''float() argument must be a string or a real number''
         | OverflowError \<Rightarrow> ''int too large to convert to float''
         | KeyError \<Rightarrow> ''0''
         | IndexError \<Rightarrow> ''list index out of range''
         | AttributeError \<Rightarrow> ''object has no attribute get'')\<rparr>"

text \<open>The schema and the defaults of the specification's scenario.\<close>

definition scenario :: config where
  "scenario =
     \<lparr>MODEL_FEATURES = [''age'', ''income''],
      DEFAULT_VALUES = [(''income'', PFloat (Finite 0))],
      MLFLOW_ENDPOINT_URL = ''https://model.example/invocations'',
      DATABRICKS_TOKEN = ''token'',
      REQUEST_TIMEOUT = 5\<rparr>"

section \<open>Notions of the specification\<close>

text \<open>
  The value the specification's builder takes for a feature: the record's entry if
  present, else the configured default if present, else 0.0.
\<close>

definition spec_value :: "config \<Rightarrow> (string \<times> pyval) list \<Rightarrow> string \<Rightarrow> pyval" where
  "spec_value cfg d feature =
     (case map_of d feature of
        Some v \<Rightarrow> v
      | None \<Rightarrow>
          (case map_of (DEFAULT_VALUES cfg) feature of
             Some v \<Rightarrow> v
           | None \<Rightarrow> PFloat (Finite 0)))"

text \<open>The record style of the encoder on one entry: the value as a one-element list.\<close>

definition wrap_entry :: "string \<times> pyval \<Rightarrow> string \<times> pyval" where
  "wrap_entry p = (fst p, PList [snd p])"

text \<open>The entry the extraction takes: that of \<^verbatim>\<open>"predictions"\<close> when the response is
  a dict with that key, else that of \<^verbatim>\<open>"data"\<close> when it is a dict with that key.\<close>

definition first_match :: "pyval \<Rightarrow> pyval option" where
  "first_match response =
     (case dict_entry response ''predictions'' of
        Some v \<Rightarrow> Some v
      | None \<Rightarrow> dict_entry response ''data'')"

section \<open>Properties of the validator\<close>

lemma missing_features_dict:
  "missing_features (PDict d) fs = Inr (filter (\<lambda>f. map_of d f = None) fs)"
  by (induction fs) simp_all

lemma check_features_all_ok:
  "(\<forall>f \<in> set fs. \<exists>v x. map_of d f = Some v \<and> py_float rt v = Inr x)
     \<Longrightarrow> check_features rt (PDict d) fs = Inr (True, [])"
  by (induction fs) auto

lemma set_missing:
  "set (filter (\<lambda>f. map_of d f = None) fs) = {f \<in> set fs. f \<notin> fst ` set d}"
  by (auto simp: map_of_eq_None_iff)

text \<open>
  C1. A record (a dict) that holds every feature of the schema with a value that
  \<^verbatim>\<open>float\<close> converts is accepted: the validator returns \<^verbatim>\<open>(True, "")\<close>. A record that
  lacks one or more features is rejected with the message that lists, joined by a comma
  and a space and in schema order, the features that are absent: all of them, and nothing
  else.
\<close>

theorem validate_accepts_complete_and_lists_missing:
  "((\<forall>f \<in> set (MODEL_FEATURES cfg). \<exists>v x. map_of d f = Some v \<and> py_float rt v = Inr x)
      \<longrightarrow> validate_input_data rt cfg (PDict d) = Inr (True, []))
   \<and> ((\<exists>f \<in> set (MODEL_FEATURES cfg). map_of d f = None)
      \<longrightarrow> validate_input_data rt cfg (PDict d) =
            Inr (False, ''Missing required features: '' @
                   join_str '', '' (filter (\<lambda>f. map_of d f = None) (MODEL_FEATURES cfg)))
          \<and> set (filter (\<lambda>f. map_of d f = None) (MODEL_FEATURES cfg)) =
            {f \<in> set (MODEL_FEATURES cfg). f \<notin> fst ` set d})"
proof (intro conjI impI)
  assume ok: "\<forall>f \<in> set (MODEL_FEATURES cfg). \<exists>v x. map_of d f = Some v \<and> py_float rt v = Inr x"
  then have "filter (\<lambda>f. map_of d f = None) (MODEL_FEATURES cfg) = []"
    by (auto simp: filter_empty_conv)
  with ok show "validate_input_data rt cfg (PDict d) = Inr (True, [])"
    by (simp add: validate_input_data_def missing_features_dict check_features_all_ok)
next
  assume "\<exists>f \<in> set (MODEL_FEATURES cfg). map_of d f = None"
  then have "filter (\<lambda>f. map_of d f = None) (MODEL_FEATURES cfg) \<noteq> []"
    by (auto simp: filter_empty_conv)
  then show "validate_input_data rt cfg (PDict d) =
            Inr (False, ''Missing required features: '' @
                   join_str '', '' (filter (\<lambda>f. map_of d f = None) (MODEL_FEATURES cfg)))"
    by (simp add: validate_input_data_def missing_features_dict)
next
  show "set (filter (\<lambda>f. map_of d f = None) (MODEL_FEATURES cfg)) =
            {f \<in> set (MODEL_FEATURES cfg). f \<notin> fst ` set d}"
    by (rule set_missing)
qed

theorem validate_accepts_complete_and_lists_missing_witness:
  "validate_input_data cpython scenario
     (PDict [(''age'', PInt 34), (''income'', PFloat (Finite 1200.5))]) = Inr (True, [])
   \<and> validate_input_data cpython (scenario\<lparr>MODEL_FEATURES := [''age'', ''bmi'', ''income'']\<rparr>)
     (PDict [(''age'', PInt 34)]) = Inr (False, ''Missing required features: bmi, income'')"
  using validate_accepts_complete_and_lists_missing
          [of scenario "[(''age'', PInt 34), (''income'', PFloat (Finite 1200.5))]" cpython]
        validate_accepts_complete_and_lists_missing
          [of "scenario\<lparr>MODEL_FEATURES := [''age'', ''bmi'', ''income'']\<rparr>"
              "[(''age'', PInt 34)]" cpython]
  by (simp add: scenario_def cpython_def float_limit_def)

text \<open>
  When every feature is present, the loop stops at the first feature, in schema order,
  whose conversion raises ValueError or TypeError, and reports that feature alone,
  whatever the features after it hold.
\<close>

lemma check_features_first_invalid:
  "\<forall>f \<in> set pre. \<exists>v x. map_of d f = Some v \<and> py_float rt v = Inr x
   \<Longrightarrow> map_of d bad = Some v \<Longrightarrow> py_float rt v = Inl (Builtin c)
   \<Longrightarrow> c = ValueError \<or> c = TypeError
   \<Longrightarrow> check_features rt (PDict d) (pre @ bad # rest) = Inr (False, invalid_value_message bad)"
  by (induction pre) auto

lemma validate_reports_first_invalid:
  assumes "\<forall>f \<in> set (pre @ bad # rest). map_of d f \<noteq> None"
    and "MODEL_FEATURES cfg = pre @ bad # rest"
    and "\<forall>f \<in> set pre. \<exists>v x. map_of d f = Some v \<and> py_float rt v = Inr x"
    and "map_of d bad = Some v" and "py_float rt v = Inl (Builtin c)"
    and "c = ValueError \<or> c = TypeError"
  shows "validate_input_data rt cfg (PDict d) = Inr (False, invalid_value_message bad)"
proof -
  have "filter (\<lambda>f. map_of d f = None) (pre @ bad # rest) = []"
    using assms(1) by (auto simp: filter_empty_conv)
  then show ?thesis
    using assms(2) check_features_first_invalid [OF assms(3,4,5,6)]
    by (simp add: validate_input_data_def missing_features_dict)
qed

text \<open>
  C2. The claim fails on the code for a value whose conversion raises OverflowError, which
  the loop does not catch. For the schema \<^verbatim>\<open>["age"]\<close> and the record
  \<^verbatim>\<open>{"age": 10**400}\<close> (a JSON integer), the validator returns no verdict: the
  OverflowError leaves it, and \<^verbatim>\<open>predict\<close> answers 400 with the generic message, not with
  the invalid-value message that names \<^verbatim>\<open>age\<close>.
\<close>

theorem validate_overflow_escapes:
  "validate_input_data cpython (scenario\<lparr>MODEL_FEATURES := [''age'']\<rparr>)
     (PDict [(''age'', PInt (10 ^ 400))]) = Inl (Builtin OverflowError)
   \<and> predict cpython post (scenario\<lparr>MODEL_FEATURES := [''age'']\<rparr>)
        (Inr (PDict [(''age'', PInt (10 ^ 400))])) =
       (400, error_body ''An error occurred: int too large to convert to float'')"
  by (simp add: validate_input_data_def scenario_def cpython_def float_limit_def
      predict_def predict_try_def)

text \<open>
  C3. A default does not exempt a feature from the presence check: a feature of the
  schema that has a configured default and is absent from the record makes the validator
  fail with the missing-features message, and the message names it. The witness is the
  scenario of the specification: schema \<^verbatim>\<open>["age", "income"]\<close>, defaults
  \<^verbatim>\<open>{"income": 0.0}\<close>, input \<^verbatim>\<open>{"age": "34"}\<close>.
\<close>

theorem defaults_do_not_exempt:
  "f \<in> set (MODEL_FEATURES cfg) \<and> map_of (DEFAULT_VALUES cfg) f = Some dv \<and> map_of d f = None
   \<longrightarrow> validate_input_data rt cfg (PDict d) =
         Inr (False, ''Missing required features: '' @
                join_str '', '' (filter (\<lambda>g. map_of d g = None) (MODEL_FEATURES cfg)))
       \<and> f \<in> set (filter (\<lambda>g. map_of d g = None) (MODEL_FEATURES cfg))"
proof (intro impI, elim conjE)
  assume f: "f \<in> set (MODEL_FEATURES cfg)" and absent: "map_of d f = None"
  then have "filter (\<lambda>g. map_of d g = None) (MODEL_FEATURES cfg) \<noteq> []"
    by (auto simp: filter_empty_conv)
  with f absent show "validate_input_data rt cfg (PDict d) =
         Inr (False, ''Missing required features: '' @
                join_str '', '' (filter (\<lambda>g. map_of d g = None) (MODEL_FEATURES cfg)))
       \<and> f \<in> set (filter (\<lambda>g. map_of d g = None) (MODEL_FEATURES cfg))"
    by (simp add: validate_input_data_def missing_features_dict)
qed

theorem defaults_do_not_exempt_witness:
  "MODEL_FEATURES scenario = [''age'', ''income'']
   \<and> DEFAULT_VALUES scenario = [(''income'', PFloat (Finite 0))]
   \<and> validate_input_data cpython scenario (PDict [(''age'', PStr ''34'')]) =
       Inr (False, ''Missing required features: income'')"
  using defaults_do_not_exempt
          [of "''income''" scenario "PFloat (Finite 0)" "[(''age'', PStr ''34'')]" cpython]
  by (simp add: scenario_def)

section \<open>Properties of the record builder\<close>

lemma dict_set_fresh: "k \<notin> fst ` set ps \<Longrightarrow> dict_set ps k v = ps @ [(k, v)]"
  by (induction ps) auto

text \<open>On a dict, the value the builder converts is the one the specification names.\<close>

lemma feature_dict_step:
  "feature_dict rt cfg (PDict d) (f # fs) acc =
     (case py_float rt (spec_value cfg d f) of
        Inl e \<Rightarrow> Inl e
      | Inr x \<Rightarrow> feature_dict rt cfg (PDict d) fs (dict_set acc f x))"
  by (simp add: spec_value_def default_value_def split: option.splits)

lemma feature_dict_rows:
  "distinct fs \<Longrightarrow> set fs \<inter> fst ` set acc = {}
   \<Longrightarrow> \<forall>f \<in> set fs. \<exists>x. py_float rt (spec_value cfg d f) = Inr x
   \<Longrightarrow> \<exists>row. feature_dict rt cfg (PDict d) fs acc = Inr (acc @ zip fs row)
          \<and> length row = length fs
          \<and> map Inr row = map (\<lambda>f. py_float rt (spec_value cfg d f)) fs"
proof (induction fs arbitrary: acc)
  case Nil
  then show ?case by simp
next
  case (Cons f fs)
  from Cons.prems(3) obtain x where x: "py_float rt (spec_value cfg d f) = Inr x"
    by auto
  from Cons.prems(2) have fresh: "f \<notin> fst ` set acc"
    by auto
  have "\<exists>row. feature_dict rt cfg (PDict d) fs (acc @ [(f, x)]) = Inr ((acc @ [(f, x)]) @ zip fs row)
          \<and> length row = length fs
          \<and> map Inr row = map (\<lambda>f. py_float rt (spec_value cfg d f)) fs"
  proof (rule Cons.IH)
    show "distinct fs" using Cons.prems(1) by simp
    show "set fs \<inter> fst ` set (acc @ [(f, x)]) = {}"
      using Cons.prems(1,2) by auto
    show "\<forall>f \<in> set fs. \<exists>x. py_float rt (spec_value cfg d f) = Inr x"
      using Cons.prems(3) by simp
  qed
  then obtain row where row:
    "feature_dict rt cfg (PDict d) fs (acc @ [(f, x)]) = Inr ((acc @ [(f, x)]) @ zip fs row)"
    "length row = length fs"
    "map Inr row = map (\<lambda>f. py_float rt (spec_value cfg d f)) fs"
    by blast
  have "feature_dict rt cfg (PDict d) (f # fs) acc = Inr (acc @ zip (f # fs) (x # row))"
    using x row(1) fresh by (simp add: feature_dict_step dict_set_fresh del: feature_dict.simps)
  moreover have "length (x # row) = length (f # fs)"
    using row(2) by simp
  moreover have "map Inr (x # row) = map (\<lambda>f. py_float rt (spec_value cfg d f)) (f # fs)"
    using x row(3) by simp
  ultimately show ?case by blast
qed

lemma feature_dict_fails:
  "\<exists>f \<in> set fs. \<forall>x. py_float rt (spec_value cfg d f) \<noteq> Inr x
   \<Longrightarrow> \<exists>e. feature_dict rt cfg (PDict d) fs acc = Inl e"
proof (induction fs arbitrary: acc)
  case Nil
  then show ?case by simp
next
  case (Cons f fs)
  show ?case
  proof (cases "py_float rt (spec_value cfg d f)")
    case (Inl e)
    then show ?thesis by (simp add: feature_dict_step del: feature_dict.simps)
  next
    case (Inr x)
    with Cons.prems have "\<exists>f \<in> set fs. \<forall>x. py_float rt (spec_value cfg d f) \<noteq> Inr x"
      by auto
    then have "\<exists>e. feature_dict rt cfg (PDict d) fs (dict_set acc f x) = Inl e"
      by (rule Cons.IH)
    with Inr show ?thesis by (simp add: feature_dict_step del: feature_dict.simps)
  qed
qed

text \<open>
  C4, as stated, fails: the builder raises on a record with a value that \<^verbatim>\<open>float\<close>
  does not convert. For the scenario's schema and the record
  \<^verbatim>\<open>{"age": null, "income": 1200}\<close> it raises TypeError and produces no record.
\<close>

theorem build_raises_on_null:
  "build_dataframe_from_request cpython scenario
     (PDict [(''age'', PNone), (''income'', PInt 1200)]) = Inl (Builtin TypeError)"
  by (simp add: build_dataframe_from_request_def scenario_def default_value_def)

text \<open>
  C4, amended. For a schema of distinct feature names and a record (a dict) in which the
  value taken for each feature (the record's entry if present, else the configured
  default if present, else 0.0) is one that \<^verbatim>\<open>float\<close> converts, the builder produces one
  row whose columns are the schema's features in schema order, whose length is the
  schema's, and whose value for each feature is the conversion of the value taken for it.
  When the value taken for some feature does not convert, the builder raises.
\<close>

theorem build_shape:
  "(distinct (MODEL_FEATURES cfg)
     \<and> (\<forall>f \<in> set (MODEL_FEATURES cfg). \<exists>x. py_float rt (spec_value cfg d f) = Inr x)
     \<longrightarrow> (\<exists>row. build_dataframe_from_request rt cfg (PDict d) =
                  Inr \<lparr>df_columns = MODEL_FEATURES cfg, df_index = [0], df_data = [row]\<rparr>
              \<and> length row = length (MODEL_FEATURES cfg)
              \<and> map Inr row = map (\<lambda>f. py_float rt (spec_value cfg d f)) (MODEL_FEATURES cfg)))
   \<and> ((\<exists>f \<in> set (MODEL_FEATURES cfg). \<forall>x. py_float rt (spec_value cfg d f) \<noteq> Inr x)
     \<longrightarrow> (\<exists>e. build_dataframe_from_request rt cfg (PDict d) = Inl e))"
proof (intro conjI impI)
  assume "distinct (MODEL_FEATURES cfg)
     \<and> (\<forall>f \<in> set (MODEL_FEATURES cfg). \<exists>x. py_float rt (spec_value cfg d f) = Inr x)"
  then have dist: "distinct (MODEL_FEATURES cfg)"
    and ok: "\<forall>f \<in> set (MODEL_FEATURES cfg). \<exists>x. py_float rt (spec_value cfg d f) = Inr x"
    by simp_all
  have "set (MODEL_FEATURES cfg) \<inter> fst ` set ([] :: (string \<times> pyfloat) list) = {}"
    by simp
  from feature_dict_rows [OF dist this ok] obtain row where row:
    "feature_dict rt cfg (PDict d) (MODEL_FEATURES cfg) [] = Inr ([] @ zip (MODEL_FEATURES cfg) row)"
    "length row = length (MODEL_FEATURES cfg)"
    "map Inr row = map (\<lambda>f. py_float rt (spec_value cfg d f)) (MODEL_FEATURES cfg)"
    by blast
  have "build_dataframe_from_request rt cfg (PDict d) =
          Inr \<lparr>df_columns = MODEL_FEATURES cfg, df_index = [0], df_data = [row]\<rparr>"
    using row(1,2) by (simp add: build_dataframe_from_request_def frame_of_record_def)
  with row(2,3) show "\<exists>row. build_dataframe_from_request rt cfg (PDict d) =
                Inr \<lparr>df_columns = MODEL_FEATURES cfg, df_index = [0], df_data = [row]\<rparr>
            \<and> length row = length (MODEL_FEATURES cfg)
            \<and> map Inr row = map (\<lambda>f. py_float rt (spec_value cfg d f)) (MODEL_FEATURES cfg)"
    by blast
next
  assume "\<exists>f \<in> set (MODEL_FEATURES cfg). \<forall>x. py_float rt (spec_value cfg d f) \<noteq> Inr x"
  then have "\<exists>e. feature_dict rt cfg (PDict d) (MODEL_FEATURES cfg) [] = Inl e"
    by (rule feature_dict_fails)
  then show "\<exists>e. build_dataframe_from_request rt cfg (PDict d) = Inl e"
    by (auto simp: build_dataframe_from_request_def)
qed

theorem build_shape_witness:
  "build_dataframe_from_request cpython scenario (PDict [(''age'', PInt 34)]) =
     Inr \<lparr>df_columns = [''age'', ''income''], df_index = [0],
          df_data = [[Finite 34, Finite 0]]\<rparr>
   \<and> (\<exists>e. build_dataframe_from_request cpython scenario
          (PDict [(''age'', PInt 34), (''income'', PList [])]) = Inl e)"
proof -
  have features: "MODEL_FEATURES scenario = [''age'', ''income'']"
    by (simp add: scenario_def)
  have age: "py_float cpython (spec_value scenario [(''age'', PInt 34)] ''age'') = Inr (Finite 34)"
    by (simp add: spec_value_def cpython_def float_limit_def)
  have income:
    "py_float cpython (spec_value scenario [(''age'', PInt 34)] ''income'') = Inr (Finite 0)"
    by (simp add: spec_value_def scenario_def)
  have bad: "\<forall>x. py_float cpython
      (spec_value scenario [(''age'', PInt 34), (''income'', PList [])] ''income'') \<noteq> Inr x"
    by (simp add: spec_value_def)
  from build_shape [of scenario cpython "[(''age'', PInt 34)]"] features age income
  have ok: "build_dataframe_from_request cpython scenario (PDict [(''age'', PInt 34)]) =
     Inr \<lparr>df_columns = [''age'', ''income''], df_index = [0],
          df_data = [[Finite 34, Finite 0]]\<rparr>"
    by (auto simp: length_Suc_conv)
  from build_shape [of scenario cpython "[(''age'', PInt 34), (''income'', PList [])]"]
    features bad
  have "\<exists>e. build_dataframe_from_request cpython scenario
          (PDict [(''age'', PInt 34), (''income'', PList [])]) = Inl e"
    by simp
  with ok show ?thesis by simp
qed

text \<open>A verdict \<^verbatim>\<open>True\<close> means that every feature was read and converted.\<close>

lemma check_features_True:
  "check_features rt data fs = Inr (True, msg)
   \<Longrightarrow> \<forall>f \<in> set fs. \<exists>v x. py_getitem data f = Inr v \<and> py_float rt v = Inr x"
proof (induction fs)
  case Nil
  then show ?case by simp
next
  case (Cons f fs)
  then show ?case
    by (auto split: sum.splits pyexc.splits exc_class.splits)
qed

lemma py_get_of_getitem: "py_getitem data f = Inr v \<Longrightarrow> py_get data f dflt = Inr v"
  by (cases data) (auto split: option.splits)

lemma feature_dict_total:
  "\<forall>f \<in> set fs. \<exists>v x. py_getitem data f = Inr v \<and> py_float rt v = Inr x
   \<Longrightarrow> \<exists>d. feature_dict rt cfg data fs acc = Inr d"
proof (induction fs arbitrary: acc)
  case Nil
  then show ?case by simp
next
  case (Cons f fs)
  then obtain v x where vx: "py_getitem data f = Inr v" "py_float rt v = Inr x"
    by auto
  have "\<exists>d. feature_dict rt cfg data fs (dict_set acc f x) = Inr d"
    using Cons.prems by (intro Cons.IH) simp
  with vx show ?case
    by (simp add: py_get_of_getitem)
qed

lemma validate_True:
  "validate_input_data rt cfg data = Inr (True, msg)
   \<Longrightarrow> check_features rt data (MODEL_FEATURES cfg) = Inr (True, msg)"
  by (auto simp: validate_input_data_def Let_def split: sum.splits if_splits)

lemma accepted_features_convert:
  assumes "validate_input_data rt cfg data = Inr (True, msg)"
  shows "\<forall>f \<in> set (MODEL_FEATURES cfg).
           \<exists>v x. py_getitem data f = Inr v \<and> py_float rt v = Inr x"
proof -
  from assms have "check_features rt data (MODEL_FEATURES cfg) = Inr (True, msg)"
    by (rule validate_True)
  then show ?thesis
    by (rule check_features_True)
qed

text \<open>
  C5. On every request body that the validator accepts, the builder returns a frame: each
  conversion it repeats is one the validator has made, so no branch of the builder that
  raises is taken.
\<close>

theorem build_after_validate:
  "validate_input_data rt cfg data = Inr (True, msg)
   \<Longrightarrow> \<exists>df. build_dataframe_from_request rt cfg data = Inr df"
proof -
  assume "validate_input_data rt cfg data = Inr (True, msg)"
  then have "\<forall>f \<in> set (MODEL_FEATURES cfg).
      \<exists>v x. py_getitem data f = Inr v \<and> py_float rt v = Inr x"
    by (rule accepted_features_convert)
  then obtain d where "feature_dict rt cfg data (MODEL_FEATURES cfg) [] = Inr d"
    using feature_dict_total by blast
  then show ?thesis
    by (simp add: build_dataframe_from_request_def)
qed

theorem build_after_validate_witness:
  "validate_input_data cpython scenario
     (PDict [(''age'', PInt 34), (''income'', PFloat (Finite 1200.5))]) = Inr (True, [])
   \<and> (\<exists>df. build_dataframe_from_request cpython scenario
          (PDict [(''age'', PInt 34), (''income'', PFloat (Finite 1200.5))]) = Inr df)"
proof -
  have v: "validate_input_data cpython scenario
     (PDict [(''age'', PInt 34), (''income'', PFloat (Finite 1200.5))]) = Inr (True, [])"
    by (simp add: validate_input_data_def scenario_def cpython_def float_limit_def)
  from build_after_validate [OF v] v show ?thesis by simp
qed

section \<open>Properties of the payload encoder\<close>

lemma map_of_middle:
  "k \<notin> fst ` set pre \<Longrightarrow> map_of (pre @ (k, v) # rest) k = Some v"
  by (induction pre) auto

lemma tf_inputs_distinct:
  "distinct (map fst (pre @ rest))
   \<Longrightarrow> tf_inputs (pre @ rest) (map fst rest) (map wrap_entry pre) =
       Inr (map wrap_entry (pre @ rest))"
proof (induction rest arbitrary: pre)
  case Nil
  then show ?case by simp
next
  case (Cons p rest)
  obtain k v where p: "p = (k, v)" by (cases p)
  from Cons.prems p have fresh: "k \<notin> fst ` set pre"
    by auto
  then have fresh': "k \<notin> fst ` set (map wrap_entry pre)"
    by (simp add: image_image wrap_entry_def)
  have lookup: "map_of (pre @ (k, v) # rest) k = Some v"
    using fresh by (rule map_of_middle)
  have upd: "dict_set (map wrap_entry pre) k (PList [v]) = map wrap_entry (pre @ [p])"
    using dict_set_fresh [OF fresh', of "PList [v]"] p by (simp add: wrap_entry_def)
  have "tf_inputs (pre @ p # rest) (map fst (p # rest)) (map wrap_entry pre) =
          tf_inputs (pre @ p # rest) (map fst rest) (map wrap_entry (pre @ [p]))"
    unfolding p using lookup upd [unfolded p]
    by (simp only: list.map fst_conv tf_inputs.simps option.case)
  also have "\<dots> = tf_inputs ((pre @ [p]) @ rest) (map fst rest) (map wrap_entry (pre @ [p]))"
    by simp
  also have "\<dots> = Inr (map wrap_entry ((pre @ [p]) @ rest))"
    using Cons.prems by (intro Cons.IH) simp
  finally show ?case by simp
qed

lemma feature_dict_shape:
  "feature_dict rt cfg data fs acc = Inr vr \<Longrightarrow> distinct fs \<Longrightarrow> set fs \<inter> fst ` set acc = {}
   \<Longrightarrow> \<exists>row. vr = acc @ zip fs row \<and> length row = length fs"
proof (induction fs arbitrary: acc)
  case Nil
  then show ?case by simp
next
  case (Cons f fs)
  from Cons.prems(1) obtain x where
    rest: "feature_dict rt cfg data fs (dict_set acc f x) = Inr vr"
    by (auto split: sum.splits)
  from Cons.prems(3) have "f \<notin> fst ` set acc"
    by auto
  then have upd: "dict_set acc f x = acc @ [(f, x)]"
    by (rule dict_set_fresh)
  have "\<exists>row. vr = (acc @ [(f, x)]) @ zip fs row \<and> length row = length fs"
  proof (rule Cons.IH)
    show "feature_dict rt cfg data fs (acc @ [(f, x)]) = Inr vr"
      using rest upd by simp
    show "distinct fs" using Cons.prems(2) by simp
    show "set fs \<inter> fst ` set (acc @ [(f, x)]) = {}"
      using Cons.prems(2,3) by auto
  qed
  then obtain row where "vr = (acc @ [(f, x)]) @ zip fs row" "length row = length fs"
    by blast
  then have "vr = acc @ zip (f # fs) (x # row) \<and> length (x # row) = length (f # fs)"
    by simp
  then show ?case by blast
qed

text \<open>
  C6. Record style: a dict becomes \<^verbatim>\<open>{"inputs": {feature: [value]}}\<close>, each feature
  bound to the one-element list of its value, in the dict's order. Tabular style: the frame
  that the builder makes of a record, for a schema of \<open>n\<close> distinct features, becomes
  \<^verbatim>\<open>{"dataframe_split": {...}}\<close> with the \<open>n\<close> features as columns in schema order, the
  index \<^verbatim>\<open>[0]\<close> and one row of \<open>n\<close> values, the frame's row. The body that
  \<^verbatim>\<open>score_model\<close> posts is the same value: an endpoint that answers 200 with the body it
  received hands it back.
\<close>

theorem encode_shapes:
  "(distinct (map fst d)
      \<longrightarrow> create_tf_serving_json (DictInput d) =
            Inr (PDict [(''inputs'', PDict (map wrap_entry d))]))
   \<and> (distinct (MODEL_FEATURES cfg) \<and> build_dataframe_from_request rt cfg data = Inr df
      \<longrightarrow> (\<exists>row. length row = length (MODEL_FEATURES cfg)
             \<and> df = \<lparr>df_columns = MODEL_FEATURES cfg, df_index = [0], df_data = [row]\<rparr>
             \<and> create_tf_serving_json (FrameInput df) =
                 Inr (PDict [(''dataframe_split'',
                        PDict [(''index'', PList [PInt 0]),
                               (''columns'', PList (map PStr (MODEL_FEATURES cfg))),
                               (''data'', PList [PList (map PFloat row)])])])))
   \<and> score_model
        (\<lambda>url headers body timeout.
           PostResponse \<lparr>status_code = 200, body_text = [], body_json = Inr body\<rparr>) cfg df =
       create_tf_serving_json (FrameInput df)"
proof (intro conjI impI)
  assume "distinct (map fst d)"
  then have "tf_inputs ([] @ d) (map fst d) (map wrap_entry []) = Inr (map wrap_entry ([] @ d))"
    by (intro tf_inputs_distinct) simp
  then show "create_tf_serving_json (DictInput d) =
            Inr (PDict [(''inputs'', PDict (map wrap_entry d))])"
    by simp
next
  assume "distinct (MODEL_FEATURES cfg) \<and> build_dataframe_from_request rt cfg data = Inr df"
  then obtain vr where dist: "distinct (MODEL_FEATURES cfg)"
    and vr: "feature_dict rt cfg data (MODEL_FEATURES cfg) [] = Inr vr"
    and df: "df = frame_of_record vr"
    by (auto simp: build_dataframe_from_request_def split: sum.splits)
  from feature_dict_shape [OF vr dist] obtain row where row:
    "vr = [] @ zip (MODEL_FEATURES cfg) row" "length row = length (MODEL_FEATURES cfg)"
    by auto
  have frame: "df = \<lparr>df_columns = MODEL_FEATURES cfg, df_index = [0], df_data = [row]\<rparr>"
    using df row by (simp add: frame_of_record_def)
  then have "create_tf_serving_json (FrameInput df) =
          Inr (PDict [(''dataframe_split'',
                 PDict [(''index'', PList [PInt 0]),
                        (''columns'', PList (map PStr (MODEL_FEATURES cfg))),
                        (''data'', PList [PList (map PFloat row)])])])"
    by (simp add: to_dict_split_def)
  with row(2) frame show "\<exists>row. length row = length (MODEL_FEATURES cfg)
             \<and> df = \<lparr>df_columns = MODEL_FEATURES cfg, df_index = [0], df_data = [row]\<rparr>
             \<and> create_tf_serving_json (FrameInput df) =
                 Inr (PDict [(''dataframe_split'',
                        PDict [(''index'', PList [PInt 0]),
                               (''columns'', PList (map PStr (MODEL_FEATURES cfg))),
                               (''data'', PList [PList (map PFloat row)])])])"
    by blast
next
  show "score_model
        (\<lambda>url headers body timeout.
           PostResponse \<lparr>status_code = 200, body_text = [], body_json = Inr body\<rparr>) cfg df =
       create_tf_serving_json (FrameInput df)"
    by (simp add: score_model_def)
qed

theorem encode_shapes_witness:
  "create_tf_serving_json (DictInput [(''age'', PInt 34), (''income'', PFloat (Finite 1200.5))]) =
     Inr (PDict [(''inputs'', PDict [(''age'', PList [PInt 34]),
                                      (''income'', PList [PFloat (Finite 1200.5)])])])
   \<and> build_dataframe_from_request cpython scenario
        (PDict [(''income'', PFloat (Finite 1200.5)), (''age'', PInt 34)]) =
       Inr \<lparr>df_columns = [''age'', ''income''], df_index = [0],
            df_data = [[Finite 34, Finite 1200.5]]\<rparr>
   \<and> create_tf_serving_json
        (FrameInput \<lparr>df_columns = [''age'', ''income''], df_index = [0],
                     df_data = [[Finite 34, Finite 1200.5]]\<rparr>) =
       Inr (PDict [(''dataframe_split'',
              PDict [(''index'', PList [PInt 0]),
                     (''columns'', PList [PStr ''age'', PStr ''income'']),
                     (''data'', PList [PList [PFloat (Finite 34), PFloat (Finite 1200.5)]])])])"
proof -
  have b: "build_dataframe_from_request cpython scenario
        (PDict [(''income'', PFloat (Finite 1200.5)), (''age'', PInt 34)]) =
       Inr \<lparr>df_columns = [''age'', ''income''], df_index = [0],
            df_data = [[Finite 34, Finite 1200.5]]\<rparr>"
    by (simp add: build_dataframe_from_request_def scenario_def default_value_def cpython_def
        float_limit_def frame_of_record_def)
  have d: "distinct (MODEL_FEATURES scenario)"
    by (simp add: scenario_def)
  from encode_shapes [of "[(''age'', PInt 34), (''income'', PFloat (Finite 1200.5))]"
      scenario cpython "PDict [(''income'', PFloat (Finite 1200.5)), (''age'', PInt 34)]"
      "\<lparr>df_columns = [''age'', ''income''], df_index = [0],
            df_data = [[Finite 34, Finite 1200.5]]\<rparr>"] b d
  show ?thesis
    by (simp add: wrap_entry_def to_dict_split_def scenario_def)
qed

section \<open>Properties of the result normalizer\<close>

text \<open>
  C7. The extraction takes the first match, by key alone: a dict with the key
  \<^verbatim>\<open>"predictions"\<close> gives \<^verbatim>\<open>[0]\<close> of that entry, whatever the entry is and whether or
  not the dict also has \<^verbatim>\<open>"data"\<close>; a dict without it and with the key \<^verbatim>\<open>"data"\<close>
  gives \<^verbatim>\<open>[0]\<close> of that entry; a response that is not a dict, or has neither key, is
  returned unchanged. \<^verbatim>\<open>[0]\<close> of a non-empty list is its first element. The witness
  holds the three examples of the specification, a response with both keys, and two
  responses whose \<^verbatim>\<open>"predictions"\<close> entry is not a list.
\<close>

theorem normalize_precedence:
  "(map_of d ''predictions'' = Some v \<longrightarrow> normalize (PDict d) = py_index0 v)
   \<and> (map_of d ''predictions'' = None \<and> map_of d ''data'' = Some v
        \<longrightarrow> normalize (PDict d) = py_index0 v)
   \<and> (dict_entry r ''predictions'' = None \<and> dict_entry r ''data'' = None
        \<longrightarrow> normalize r = Inr r)
   \<and> py_index0 (PList (x # xs)) = Inr x"
  by (simp add: normalize_def)

theorem normalize_precedence_witness:
  "normalize (PDict [(''predictions'', PList [PFloat (Finite 0.87)])]) = Inr (PFloat (Finite 0.87))
   \<and> normalize (PDict [(''data'', PList [PList [PFloat (Finite 0.2), PFloat (Finite 0.8)]])]) =
       Inr (PList [PFloat (Finite 0.2), PFloat (Finite 0.8)])
   \<and> normalize (PDict [(''foo'', PInt 1)]) = Inr (PDict [(''foo'', PInt 1)])
   \<and> normalize (PDict [(''data'', PList [PInt 7]),
                        (''predictions'', PList [PFloat (Finite 0.87)])]) =
       Inr (PFloat (Finite 0.87))
   \<and> normalize (PDict [(''predictions'', PStr ''abc''), (''data'', PList [PInt 1])]) =
       Inr (PStr ''a'')
   \<and> normalize (PDict [(''predictions'', PFloat (Finite 0.5)), (''data'', PList [PInt 1])]) =
       Inl (Builtin TypeError)"
  using normalize_precedence [of "[(''predictions'', PList [PFloat (Finite 0.87)])]"
          "PList [PFloat (Finite 0.87)]" "PDict [(''foo'', PInt 1)]" "PFloat (Finite 0.87)" "[]"]
        normalize_precedence
          [of "[(''data'', PList [PList [PFloat (Finite 0.2), PFloat (Finite 0.8)]])]"
          "PList [PList [PFloat (Finite 0.2), PFloat (Finite 0.8)]]" "PNone"
          "PList [PFloat (Finite 0.2), PFloat (Finite 0.8)]" "[]"]
        normalize_precedence
          [of "[(''data'', PList [PInt 7]), (''predictions'', PList [PFloat (Finite 0.87)])]"
          "PList [PFloat (Finite 0.87)]" "PNone" "PFloat (Finite 0.87)" "[]"]
        normalize_precedence
          [of "[(''predictions'', PStr ''abc''), (''data'', PList [PInt 1])]"
          "PStr ''abc''" "PNone" "PNone" "[]"]
        normalize_precedence
          [of "[(''predictions'', PFloat (Finite 0.5)), (''data'', PList [PInt 1])]"
          "PFloat (Finite 0.5)" "PNone" "PNone" "[]"]
  by simp

text \<open>
  C8, as stated, fails: on the response \<^verbatim>\<open>{"predictions": []}\<close> the extraction indexes
  an empty list and raises IndexError.
\<close>

theorem normalize_raises_on_empty_list:
  "normalize (PDict [(''predictions'', PList [])]) = Inl (Builtin IndexError)"
  by (simp add: normalize_def)

lemma normalize_first_match:
  "normalize r = (case first_match r of None \<Rightarrow> Inr r | Some v \<Rightarrow> py_index0 v)"
  by (simp add: normalize_def first_match_def split: option.splits)

lemma py_index0_returns_iff:
  "(\<exists>y. py_index0 v = Inr y) = ((\<exists>x xs. v = PList (x # xs)) \<or> (\<exists>c cs. v = PStr (c # cs)))"
  by (cases v rule: py_index0.cases) simp_all

text \<open>
  C8, amended. The extraction returns a value exactly when the response is not a dict or
  has neither key (the response itself, unchanged: the absence of both keys is no error),
  or the entry of the first matching key is a non-empty list (its first element) or a
  non-empty string (its first character). On every other entry it raises: IndexError on
  an empty list or an empty string, KeyError on an object, TypeError on a number, a
  boolean or null.
\<close>

theorem normalize_returns_or_raises:
  "(first_match r = None \<longrightarrow> normalize r = Inr r)
   \<and> (first_match r = Some v \<longrightarrow> normalize r = py_index0 v)
   \<and> (first_match r = Some v \<longrightarrow>
        (\<exists>y. normalize r = Inr y) =
          ((\<exists>x xs. v = PList (x # xs)) \<or> (\<exists>c cs. v = PStr (c # cs))))
   \<and> (first_match r = Some (PList (x # xs)) \<longrightarrow> normalize r = Inr x)
   \<and> (first_match r = Some (PStr (c # cs)) \<longrightarrow> normalize r = Inr (PStr [c]))
   \<and> (first_match r = Some (PList []) \<or> first_match r = Some (PStr [])
        \<longrightarrow> normalize r = Inl (Builtin IndexError))
   \<and> (first_match r = Some (PDict d) \<longrightarrow> normalize r = Inl (Builtin KeyError))
   \<and> (first_match r = Some PNone \<or> first_match r = Some (PBool b)
        \<or> first_match r = Some (PInt i) \<or> first_match r = Some (PFloat f)
        \<longrightarrow> normalize r = Inl (Builtin TypeError))"
proof (intro conjI impI)
  assume "first_match r = None"
  then show "normalize r = Inr r"
    by (simp add: normalize_first_match)
next
  assume "first_match r = Some v"
  then show "normalize r = py_index0 v"
    by (simp add: normalize_first_match)
next
  assume "first_match r = Some v"
  then have "normalize r = py_index0 v"
    by (simp add: normalize_first_match)
  then show "(\<exists>y. normalize r = Inr y) =
          ((\<exists>x xs. v = PList (x # xs)) \<or> (\<exists>c cs. v = PStr (c # cs)))"
    by (simp only: py_index0_returns_iff)
next
  assume "first_match r = Some (PList (x # xs))"
  then show "normalize r = Inr x"
    by (simp add: normalize_first_match)
next
  assume "first_match r = Some (PStr (c # cs))"
  then show "normalize r = Inr (PStr [c])"
    by (simp add: normalize_first_match)
next
  assume "first_match r = Some (PList []) \<or> first_match r = Some (PStr [])"
  then show "normalize r = Inl (Builtin IndexError)"
    by (auto simp: normalize_first_match)
next
  assume "first_match r = Some (PDict d)"
  then show "normalize r = Inl (Builtin KeyError)"
    by (simp add: normalize_first_match)
next
  assume "first_match r = Some PNone \<or> first_match r = Some (PBool b)
        \<or> first_match r = Some (PInt i) \<or> first_match r = Some (PFloat f)"
  then show "normalize r = Inl (Builtin TypeError)"
    by (auto simp: normalize_first_match)
qed

theorem normalize_returns_or_raises_witness:
  "normalize (PList [PInt 1]) = Inr (PList [PInt 1])
   \<and> normalize (PDict [(''data'', PList [PInt 7, PInt 8])]) = Inr (PInt 7)
   \<and> normalize (PDict [(''predictions'', PStr ''abc'')]) = Inr (PStr ''a'')
   \<and> normalize (PDict [(''data'', PList [])]) = Inl (Builtin IndexError)
   \<and> normalize (PDict [(''predictions'', PStr [])]) = Inl (Builtin IndexError)
   \<and> normalize (PDict [(''predictions'', PDict [])]) = Inl (Builtin KeyError)
   \<and> normalize (PDict [(''predictions'', PFloat (Finite 0.87))]) = Inl (Builtin TypeError)
   \<and> normalize (PDict [(''predictions'', PNone)]) = Inl (Builtin TypeError)"
proof -
  have "normalize (PList [PInt 1]) = Inr (PList [PInt 1])"
    using normalize_returns_or_raises [where r = "PList [PInt 1]"] by (simp add: first_match_def)
  moreover have "normalize (PDict [(''data'', PList [PInt 7, PInt 8])]) = Inr (PInt 7)"
    using normalize_returns_or_raises [where r = "PDict [(''data'', PList [PInt 7, PInt 8])]" and x = "PInt 7"
        and xs = "[PInt 8]"]
    by (simp add: first_match_def)
  moreover have "normalize (PDict [(''predictions'', PStr ''abc'')]) = Inr (PStr ''a'')"
    using normalize_returns_or_raises [where r = "PDict [(''predictions'', PStr ''abc'')]" and c = "CHR ''a''"
        and cs = "''bc''"]
    by (simp add: first_match_def)
  moreover have "normalize (PDict [(''data'', PList [])]) = Inl (Builtin IndexError)"
    using normalize_returns_or_raises [where r = "PDict [(''data'', PList [])]"] by (simp add: first_match_def)
  moreover have "normalize (PDict [(''predictions'', PStr [])]) = Inl (Builtin IndexError)"
    using normalize_returns_or_raises [where r = "PDict [(''predictions'', PStr [])]"] by (simp add: first_match_def)
  moreover have "normalize (PDict [(''predictions'', PDict [])]) = Inl (Builtin KeyError)"
    using normalize_returns_or_raises [where r = "PDict [(''predictions'', PDict [])]" and d = "[]"]
    by (simp add: first_match_def)
  moreover have
    "normalize (PDict [(''predictions'', PFloat (Finite 0.87))]) = Inl (Builtin TypeError)"
    using normalize_returns_or_raises [where r = "PDict [(''predictions'', PFloat (Finite 0.87))]" and f = "Finite 0.87"]
    by (simp add: first_match_def)
  moreover have "normalize (PDict [(''predictions'', PNone)]) = Inl (Builtin TypeError)"
    using normalize_returns_or_raises [where r = "PDict [(''predictions'', PNone)]"] by (simp add: first_match_def)
  ultimately show ?thesis by simp
qed

section \<open>Properties of the route\<close>

text \<open>A body that is truthy, accepted and built goes to the endpoint.\<close>

lemma predict_valid:
  "py_truthy data \<Longrightarrow> validate_input_data rt cfg data = Inr (True, msg)
   \<Longrightarrow> build_dataframe_from_request rt cfg data = Inr df
   \<Longrightarrow> predict rt post cfg (Inr data) =
       (case (case score_model post cfg df of
                Inl e \<Rightarrow> Inl e
              | Inr result \<Rightarrow>
                  (case normalize result of
                     Inl e \<Rightarrow> Inl e
                   | Inr pv \<Rightarrow>
                       Inr (200, PDict [(''success'', PBool True), (''prediction'', pv)]))) of
          Inl e \<Rightarrow> predict_except rt e
        | Inr reply \<Rightarrow> reply)"
  by (simp add: predict_def predict_try_def)

text \<open>
  C9. The claim fails on the code. \<^verbatim>\<open>score_model\<close> catches the ConnectionError and
  raises a plain \<^verbatim>\<open>Exception\<close> in its place, which the handler for
  \<^verbatim>\<open>RequestException\<close> does not match: for every accepted request whose call to the
  endpoint fails to connect, the route answers 400 with the generic message. The status
  500 with the network-error message is what the route gives to a \<^verbatim>\<open>RequestException\<close>
  that \<^verbatim>\<open>score_model\<close> lets through.
\<close>

theorem connection_failure_is_400:
  "(py_truthy data \<and> validate_input_data rt cfg data = Inr (True, msg)
     \<and> (\<forall>url headers body timeout. post url headers body timeout = PostConnectionError)
   \<longrightarrow> predict rt post cfg (Inr data) =
         (400, error_body (''An error occurred: '' @
            ''Failed to connect to the model endpoint. Check your internet connection and endpoint URL.'')))
   \<and> (py_truthy data \<and> validate_input_data rt cfg data = Inr (True, msg)
     \<and> (\<forall>url headers body timeout.
           post url headers body timeout = PostRaises (RequestException reason))
   \<longrightarrow> predict rt post cfg (Inr data) =
         (500, error_body (''Network error while calling model endpoint: '' @ reason)))"
proof (intro conjI impI; elim conjE)
  assume t: "py_truthy data" and v: "validate_input_data rt cfg data = Inr (True, msg)"
    and p: "\<forall>url headers body timeout. post url headers body timeout = PostConnectionError"
  from feature_dict_total [OF accepted_features_convert [OF v]] obtain vr where
    "feature_dict rt cfg data (MODEL_FEATURES cfg) [] = Inr vr" ..
  then have df: "build_dataframe_from_request rt cfg data = Inr (frame_of_record vr)"
    by (simp add: build_dataframe_from_request_def)
  have "score_model post cfg (frame_of_record vr) = Inl (PlainException
      ''Failed to connect to the model endpoint. Check your internet connection and endpoint URL.'')"
    using p by (simp add: score_model_def)
  then show "predict rt post cfg (Inr data) =
         (400, error_body (''An error occurred: '' @
            ''Failed to connect to the model endpoint. Check your internet connection and endpoint URL.''))"
    by (simp add: predict_valid [OF t v df])
next
  assume t: "py_truthy data" and v: "validate_input_data rt cfg data = Inr (True, msg)"
    and p: "\<forall>url headers body timeout.
           post url headers body timeout = PostRaises (RequestException reason)"
  from feature_dict_total [OF accepted_features_convert [OF v]] obtain vr where
    "feature_dict rt cfg data (MODEL_FEATURES cfg) [] = Inr vr" ..
  then have df: "build_dataframe_from_request rt cfg data = Inr (frame_of_record vr)"
    by (simp add: build_dataframe_from_request_def)
  have "score_model post cfg (frame_of_record vr) = Inl (RequestException reason)"
    using p by (simp add: score_model_def)
  then show "predict rt post cfg (Inr data) =
         (500, error_body (''Network error while calling model endpoint: '' @ reason))"
    by (simp add: predict_valid [OF t v df])
qed

theorem connection_failure_is_400_witness:
  "predict cpython (\<lambda>url headers body timeout. PostConnectionError) scenario
     (Inr (PDict [(''age'', PInt 34), (''income'', PFloat (Finite 1200.5))])) =
   (400, PDict [(''success'', PBool False),
                (''error'', PStr ''An error occurred: Failed to connect to the model endpoint. Check your internet connection and endpoint URL.'')])
   \<and> predict cpython (\<lambda>url headers body timeout. PostRaises (RequestException ''too many redirects''))
       scenario (Inr (PDict [(''age'', PInt 34), (''income'', PFloat (Finite 1200.5))])) =
   (500, PDict [(''success'', PBool False),
                (''error'', PStr ''Network error while calling model endpoint: too many redirects'')])"
proof -
  have v: "validate_input_data cpython scenario
     (PDict [(''age'', PInt 34), (''income'', PFloat (Finite 1200.5))]) = Inr (True, [])"
    by (simp add: validate_input_data_def scenario_def cpython_def float_limit_def)
  from connection_failure_is_400
      [of "PDict [(''age'', PInt 34), (''income'', PFloat (Finite 1200.5))]"
        cpython scenario "[]" "\<lambda>url headers body timeout. PostConnectionError"] v
  have a: "predict cpython (\<lambda>url headers body timeout. PostConnectionError) scenario
     (Inr (PDict [(''age'', PInt 34), (''income'', PFloat (Finite 1200.5))])) =
   (400, PDict [(''success'', PBool False),
                (''error'', PStr ''An error occurred: Failed to connect to the model endpoint. Check your internet connection and endpoint URL.'')])"
    by (simp add: error_body_def)
  from connection_failure_is_400
      [of "PDict [(''age'', PInt 34), (''income'', PFloat (Finite 1200.5))]"
        cpython scenario "[]"
        "\<lambda>url headers body timeout. PostRaises (RequestException ''too many redirects'')"
        "''too many redirects''"] v
  have b: "predict cpython
       (\<lambda>url headers body timeout. PostRaises (RequestException ''too many redirects''))
       scenario (Inr (PDict [(''age'', PInt 34), (''income'', PFloat (Finite 1200.5))])) =
   (500, PDict [(''success'', PBool False),
                (''error'', PStr ''Network error while calling model endpoint: too many redirects'')])"
    by (simp add: error_body_def)
  from a b show ?thesis by simp
qed

text \<open>
  C10. A request whose body parses to a falsy value (\<^verbatim>\<open>{}\<close>, \<^verbatim>\<open>[]\<close>, \<^verbatim>\<open>""\<close>, 0,
  \<^verbatim>\<open>false\<close>, \<^verbatim>\<open>null\<close>) is answered 400 with the message
  \<^verbatim>\<open>No data provided in request body\<close>, whatever the schema and the endpoint: the
  validator is not consulted. The witness is the empty object, on which the validator
  would have listed every feature of the schema as missing.
\<close>

theorem falsy_body_is_no_input:
  "\<not> py_truthy data
   \<longrightarrow> predict rt post cfg (Inr data) = (400, error_body ''No data provided in request body'')"
  by (simp add: predict_def predict_try_def)

theorem falsy_body_is_no_input_witness:
  "predict cpython (\<lambda>url headers body timeout. PostTimeout) scenario (Inr (PDict [])) =
     (400, PDict [(''success'', PBool False),
                  (''error'', PStr ''No data provided in request body'')])
   \<and> validate_input_data cpython scenario (PDict []) =
       Inr (False, ''Missing required features: age, income'')"
  using falsy_body_is_no_input
          [of "PDict []" cpython "\<lambda>url headers body timeout. PostTimeout" scenario]
  by (simp add: error_body_def validate_input_data_def scenario_def)

end
